theory Spec2Isabelle
  imports Complex_Main
begin

section \<open>Black variance curve (ql/Volatilities/blackvariancecurve.hpp)\<close>

text \<open>
  The class template \<^verbatim>\<open>BlackVarianceCurve<Interpolator1D>\<close> turns market quotes
  (date, Black volatility) into nodes (time, variance) and answers variance queries in
  three regions of the time axis.

  Conventions of the embedding:
  \<^item> \<^verbatim>\<open>Date\<close> is declared outside this header; only its comparison is used, so it is a
    type parameter \<open>'d\<close> of class \<open>ord\<close>.
  \<^item> \<^verbatim>\<open>Time\<close> and \<^verbatim>\<open>double\<close> are read as real numbers: rounding and overflow are not
    modelled. Division is the exception. It is the last operation of the two scaling
    branches of the query, and for a zero divisor the C++ yields an infinity or a NaN
    where HOL's \<open>x / 0\<close> is \<open>0\<close>; the result type \<open>fpval\<close> keeps the two apart.
  \<^item> \<^verbatim>\<open>QL_REQUIRE(c, msg)\<close> throws when \<open>c\<close> is false; every throw is an \<open>Inl\<close> branch. The
    macro gives all its failures one exception type, told apart by the message; the
    constructors of \<open>error\<close> name the requirement that failed: \<open>InvalidInputError\<close> (with the
    message) for the three requirements of the constructor, \<open>DomainError\<close> for
    \<^verbatim>\<open>t>=0.0\<close> and \<open>ExtrapolationError\<close> for \<^verbatim>\<open>extrapolate\<close> in the query.
  \<^item> Arguments are finite numbers (no NaN), and the collaborators return: the day counter
    and the interpolator are total functions.
  \<^item> Reading \<^verbatim>\<open>back()\<close> or \<^verbatim>\<open>[0]\<close> of an empty vector has no defined behaviour in C++;
    the model marks these inputs with \<open>UndefinedBehaviour\<close> (which is no exception).
\<close>

subsection \<open>Data\<close>

type_synonym Time = real

datatype error =
    InvalidInputError string
  | DomainError
  | ExtrapolationError
  | UndefinedBehaviour

datatype fpval = Finite real | NotFinite

text \<open>The quotient \<^verbatim>\<open>x / y\<close> of two doubles.\<close>

definition fdiv :: "real \<Rightarrow> real \<Rightarrow> fpval" where
  "fdiv x y = (if y = 0 then NotFinite else Finite (x / y))"

text \<open>
  \<^verbatim>\<open>DayCounter\<close> is a collaborator declared elsewhere; the constructor calls its
  \<^verbatim>\<open>yearFraction(d1, d2)\<close> only, so the day counter is the record of that operation.
\<close>

record 'd DayCounter =
  yearFraction :: "'d \<Rightarrow> 'd \<Rightarrow> Time"

text \<open>
  \<^verbatim>\<open>Interpolator1D\<close> is the template parameter. An instance is built from the two node
  arrays; the handle \<^verbatim>\<open>varianceSurface_\<close> is then called on \<open>(x, extrapolate)\<close>: the built
  instance is a function of the query point and the flag, the template parameter a
  function from the node arrays to it.
\<close>

type_synonym Interpolator1D = "Time \<Rightarrow> bool \<Rightarrow> real"

text \<open>
  The private members of the class (the trailing underscore of the C++ names is dropped;
  \<^verbatim>\<open>times_\<close> is \<open>times_m\<close>, since \<open>times\<close> is HOL's multiplication).
\<close>

record 'd BlackVarianceCurve =
  referenceDate :: 'd
  dayCounter :: "'d DayCounter"
  maxDate :: 'd
  underlying :: string
  times_m :: "Time list"
  variances :: "real list"
  varianceSurface :: Interpolator1D

subsection \<open>Construction\<close>

text \<open>
  The loop of the constructor, from index \<open>j\<close> on, over the two arrays it fills:
  \<^verbatim>\<open>
  for (j=0; j<blackVolCurve.size(); j++) {
      times_[j] = dayCounter_.yearFraction(referenceDate, dates[j]);
      QL_REQUIRE(j==0 || times_[j]>times_[j-1], "dates must be sorted unique!");
      variances_[j] = times_[j] * blackVolCurve[j]*blackVolCurve[j];
  }
  \<close>
  It runs after the size check, with all four vectors of one length, so every index it
  reads is in range.
\<close>

function node_loop ::
  "'d \<Rightarrow> 'd DayCounter \<Rightarrow> 'd list \<Rightarrow> real list \<Rightarrow> nat \<Rightarrow> Time list \<Rightarrow> real list
    \<Rightarrow> error + (Time list \<times> real list)" where
  "node_loop R dc dates blackVolCurve j ts vs =
     (if j < length blackVolCurve then
        (let ts' = ts[j := yearFraction dc R (dates ! j)] in
         if j = 0 \<or> ts' ! j > ts' ! (j - 1) then
           node_loop R dc dates blackVolCurve (Suc j) ts'
             (vs[j := ts' ! j * (blackVolCurve ! j) * (blackVolCurve ! j)])
         else Inl (InvalidInputError ''dates must be sorted unique!''))
      else Inr (ts, vs))"
  by pat_completeness auto
termination
  by (relation "measure (\<lambda>(R, dc, dates, blackVolCurve, j, ts, vs). length blackVolCurve - j)")
     auto

declare node_loop.simps [simp del]

text \<open>
  The constructor. The member initialiser list reads \<^verbatim>\<open>dates.back()\<close> before any check;
  then come the two requirements, the two vectors of \<^verbatim>\<open>dates.size()\<close> zeros, the loop
  and the interpolator built from the filled arrays.
\<close>

definition new_BlackVarianceCurve ::
  "(Time list \<Rightarrow> real list \<Rightarrow> Interpolator1D) \<Rightarrow> 'd::ord \<Rightarrow> 'd DayCounter \<Rightarrow> 'd list
    \<Rightarrow> real list \<Rightarrow> string \<Rightarrow> error + 'd BlackVarianceCurve" where
  "new_BlackVarianceCurve interpolator1D R dc dates blackVolCurve u =
     (if dates = [] then Inl UndefinedBehaviour
      else if length dates \<noteq> length blackVolCurve then
        Inl (InvalidInputError ''mismatch between date vector and black vol vector'')
      else if \<not> (dates ! 0 > R) then
        Inl (InvalidInputError ''cannot have dates[0]<=referenceDate'')
      else
        (case node_loop R dc dates blackVolCurve 0
                (replicate (length dates) 0) (replicate (length dates) 0) of
           Inl e \<Rightarrow> Inl e
         | Inr (ts, vs) \<Rightarrow>
             Inr \<lparr> referenceDate = R, dayCounter = dc, maxDate = last dates,
                   underlying = u, times_m = ts, variances = vs,
                   varianceSurface = interpolator1D ts vs \<rparr>))"

subsection \<open>Accessors\<close>

definition minDate :: "'d BlackVarianceCurve \<Rightarrow> 'd" where
  "minDate c = referenceDate c"

definition minTime :: "'d BlackVarianceCurve \<Rightarrow> Time" where
  "minTime c = 0"

definition maxTime :: "'d BlackVarianceCurve \<Rightarrow> error + Time" where
  "maxTime c = (if times_m c = [] then Inl UndefinedBehaviour else Inr (last (times_m c)))"

subsection \<open>The variance query\<close>

text \<open>
  \<^verbatim>\<open>blackVarianceImpl(Time t, double, bool extrapolate)\<close>; the second parameter (the
  strike) has no name in the source and is not used. The last \<^verbatim>\<open>else\<close> has no braces:
  its body is the \<^verbatim>\<open>QL_REQUIRE\<close> alone, and the \<^verbatim>\<open>return\<close> after it is reached exactly
  when neither earlier branch returned and the requirement did not throw.
  \<^verbatim>\<open>a * t / b\<close> is \<^verbatim>\<open>(a * t) / b\<close>.
\<close>

definition blackVarianceImpl ::
  "'d BlackVarianceCurve \<Rightarrow> Time \<Rightarrow> real \<Rightarrow> bool \<Rightarrow> error + fpval" where
  "blackVarianceImpl c t strike extrapolate =
     (if \<not> (t \<ge> 0) then Inl DomainError
      else if times_m c = [] then Inl UndefinedBehaviour
      else if t \<le> times_m c ! 0 then
        Inr (fdiv (varianceSurface c (times_m c ! 0) extrapolate * t) (times_m c ! 0))
      else if t \<le> last (times_m c) then
        Inr (Finite (varianceSurface c t extrapolate))
      else if \<not> extrapolate then Inl ExtrapolationError
      else
        Inr (fdiv (varianceSurface c (last (times_m c)) extrapolate * t)
                  (last (times_m c))))"

subsection \<open>The observer hook\<close>

text \<open>
  \<^verbatim>\<open>update()\<close> calls \<^verbatim>\<open>notifyObservers()\<close>, a member of the observable base class, which
  is declared elsewhere and is taken as a parameter: a transformer of the state \<open>'o\<close> of
  that base sub-object. The members above are private to the derived class and no member
  function assigns them after the constructor.
\<close>

record ('d, 'o) curve_object =
  members :: "'d BlackVarianceCurve"
  observable :: 'o

definition update :: "('o \<Rightarrow> 'o) \<Rightarrow> ('d, 'o) curve_object \<Rightarrow> ('d, 'o) curve_object" where
  "update notifyObservers obj = obj\<lparr> observable := notifyObservers (observable obj) \<rparr>"

subsection \<open>Instances used to run the definitions\<close>

text \<open>An Actual/365 day counter on serial day numbers, and the straight line through
  nodes whose volatility is 20% throughout.\<close>

definition actual365 :: "int DayCounter" where
  "actual365 = \<lparr> yearFraction = (\<lambda>d1 d2. real_of_int (d2 - d1) / 365) \<rparr>"

definition flat20 :: "Time list \<Rightarrow> real list \<Rightarrow> Interpolator1D" where
  "flat20 xs ys = (\<lambda>x extrapolate. x / 25)"

definition example_curve :: "int BlackVarianceCurve" where
  "example_curve =
     \<lparr> referenceDate = 0, dayCounter = actual365, maxDate = 180, underlying = [],
       times_m = [6 / 73, 18 / 73, 36 / 73],
       variances = [6 / 1825, 18 / 1825, 36 / 1825],
       varianceSurface = flat20 [6 / 73, 18 / 73, 36 / 73] [6 / 1825, 18 / 1825, 36 / 1825] \<rparr>"

text \<open>A day counter that maps every pair of dates to zero: total and non-negative, but
  not strictly positive on a later date.\<close>

definition zero_counter :: "int DayCounter" where
  "zero_counter = \<lparr> yearFraction = (\<lambda>d1 d2. 0) \<rparr>"

definition zero_curve :: "int BlackVarianceCurve" where
  "zero_curve =
     \<lparr> referenceDate = 0, dayCounter = zero_counter, maxDate = 1, underlying = [],
       times_m = [0], variances = [0], varianceSurface = flat20 [0] [0] \<rparr>"

text \<open>A day counter that counts whole years of 365 days: total and non-negative, and zero
  for a date less than a year after the reference date.\<close>

definition whole_years :: "int DayCounter" where
  "whole_years = \<lparr> yearFraction = (\<lambda>d1 d2. real_of_int ((d2 - d1) div 365)) \<rparr>"

definition whole_years_curve :: "int BlackVarianceCurve" where
  "whole_years_curve =
     \<lparr> referenceDate = 0, dayCounter = whole_years, maxDate = 365, underlying = [],
       times_m = [0, 1], variances = [0, 1 / 25],
       varianceSurface = flat20 [0, 1] [0, 1 / 25] \<rparr>"

section \<open>Properties\<close>

subsection \<open>The constructor's loop in closed form\<close>

lemma node_loop_closed:
  fixes R :: "'d" and dc :: "'d DayCounter"
  assumes "length ts = length vols" "length vs = length vols" "j \<le> length vols"
    and "0 < j \<Longrightarrow> ts ! (j - 1) = yearFraction dc R (dates ! (j - 1))"
  shows "node_loop R dc dates vols j ts vs =
     (if \<forall>i. j \<le> i \<and> i < length vols \<and> 0 < i \<longrightarrow>
            yearFraction dc R (dates ! (i - 1)) < yearFraction dc R (dates ! i)
      then Inr (take j ts @ map (\<lambda>i. yearFraction dc R (dates ! i)) [j..<length vols],
                take j vs @ map (\<lambda>i. yearFraction dc R (dates ! i) * (vols ! i) * (vols ! i)) [j..<length vols])
      else Inl (InvalidInputError ''dates must be sorted unique!''))"
  using assms
proof (induction R dc dates vols j ts vs rule: node_loop.induct)
  case (1 R dc dates vols j ts vs)
  let ?T = "\<lambda>i. yearFraction dc R (dates ! i)"
  show ?case
  proof (cases "j < length vols")
    case False
    with "1.prems" have "j = length vols" by simp
    with "1.prems" show ?thesis by (simp add: node_loop.simps)
  next
    case jlt: True
    let ?ts' = "ts[j := ?T j]"
    have tsj: "?ts' ! j = ?T j" using jlt "1.prems" by simp
    have tsp: "0 < j \<Longrightarrow> ?ts' ! (j - 1) = ?T (j - 1)" using jlt "1.prems" by simp
    show ?thesis
    proof (cases "j = 0 \<or> ?T (j - 1) < ?T j")
      case False
      then have "\<not> (\<forall>i. j \<le> i \<and> i < length vols \<and> 0 < i \<longrightarrow> ?T (i - 1) < ?T i)"
        using jlt by auto
      moreover have "node_loop R dc dates vols j ts vs = Inl (InvalidInputError ''dates must be sorted unique!'')"
        using False jlt tsj tsp by (subst node_loop.simps) (simp add: Let_def)
      ultimately show ?thesis by simp
    next
      case ok: True
      have step: "node_loop R dc dates vols j ts vs =
          node_loop R dc dates vols (Suc j) ?ts' (vs[j := ?T j * (vols ! j) * (vols ! j)])"
        using ok jlt tsj tsp by (subst node_loop.simps) (auto simp add: Let_def)
      have IH: "node_loop R dc dates vols (Suc j) ?ts' (vs[j := ?ts' ! j * (vols ! j) * (vols ! j)]) =
        (if \<forall>i. Suc j \<le> i \<and> i < length vols \<and> 0 < i \<longrightarrow> ?T (i - 1) < ?T i
         then Inr (take (Suc j) ?ts' @ map ?T [Suc j..<length vols],
                take (Suc j) (vs[j := ?ts' ! j * (vols ! j) * (vols ! j)]) @ map (\<lambda>i. ?T i * (vols ! i) * (vols ! i)) [Suc j..<length vols])
         else Inl (InvalidInputError ''dates must be sorted unique!''))"
      proof (rule "1.IH"[OF jlt refl])
        show "j = 0 \<or> ?ts' ! (j - 1) < ?ts' ! j"
        proof (cases "j = 0")
          case True
          then show ?thesis by simp
        next
          case False
          then have "?ts' ! (j - 1) = ?T (j - 1)" using tsp by simp
          moreover have "?T (j - 1) < ?T j" using ok False by simp
          ultimately show ?thesis using tsj by simp
        qed
        show "length ?ts' = length vols" using "1.prems" by simp
        show "length (vs[j := ?ts' ! j * vols ! j * vols ! j]) = length vols" using "1.prems" by simp
        show "Suc j \<le> length vols" using jlt by simp
        show "?ts' ! (Suc j - 1) = ?T (Suc j - 1)" using tsj by simp
      qed
      have all: "(\<forall>i. j \<le> i \<and> i < length vols \<and> 0 < i \<longrightarrow> ?T (i - 1) < ?T i) \<longleftrightarrow>
                 (\<forall>i. Suc j \<le> i \<and> i < length vols \<and> 0 < i \<longrightarrow> ?T (i - 1) < ?T i)"
        using ok by (metis Suc_leI le_neq_implies_less not_gr_zero Suc_leD)
      have t1: "take (Suc j) ?ts' @ map ?T [Suc j..<length vols] = take j ts @ map ?T [j..<length vols]"
        using jlt "1.prems" by (simp add: take_Suc_conv_app_nth upt_conv_Cons)
      have t2: "take (Suc j) (vs[j := ?T j * (vols ! j) * (vols ! j)]) @ map (\<lambda>i. ?T i * (vols ! i) * (vols ! i)) [Suc j..<length vols]
           = take j vs @ map (\<lambda>i. ?T i * (vols ! i) * (vols ! i)) [j..<length vols]"
        using jlt "1.prems" by (simp add: take_Suc_conv_app_nth upt_conv_Cons)
      show ?thesis unfolding step using IH all t1 t2 tsj by simp
    qed
  qed
qed


lemma new_BlackVarianceCurve_closed:
  fixes R :: "'d::ord"
  assumes ne: "dates \<noteq> []"
  shows "new_BlackVarianceCurve ip R dc dates vols u =
     (if length dates \<noteq> length vols then
        Inl (InvalidInputError ''mismatch between date vector and black vol vector'')
      else if \<not> (dates ! 0 > R) then
        Inl (InvalidInputError ''cannot have dates[0]<=referenceDate'')
      else if \<forall>i. 0 < i \<and> i < length dates \<longrightarrow>
            yearFraction dc R (dates ! (i - 1)) < yearFraction dc R (dates ! i)
      then Inr \<lparr> referenceDate = R, dayCounter = dc, maxDate = last dates,
                 underlying = u, times_m = map (yearFraction dc R) dates,
                 variances = map (\<lambda>i. yearFraction dc R (dates ! i) * (vols ! i) * (vols ! i))
                               [0..<length dates],
                 varianceSurface = ip (map (yearFraction dc R) dates)
                   (map (\<lambda>i. yearFraction dc R (dates ! i) * (vols ! i) * (vols ! i))
                               [0..<length dates]) \<rparr>
      else Inl (InvalidInputError ''dates must be sorted unique!''))"
proof (cases "length dates = length vols")
  case False
  then show ?thesis using ne by (simp add: new_BlackVarianceCurve_def)
next
  case len: True
  let ?T = "\<lambda>i. yearFraction dc R (dates ! i)"
  let ?V = "\<lambda>i. yearFraction dc R (dates ! i) * (vols ! i) * (vols ! i)"
  let ?z = "replicate (length dates) (0::real)"
  have "node_loop R dc dates vols 0 ?z ?z =
     (if \<forall>i. 0 \<le> i \<and> i < length vols \<and> 0 < i \<longrightarrow> ?T (i - 1) < ?T i
      then Inr (take 0 ?z @ map ?T [0..<length vols], take 0 ?z @ map ?V [0..<length vols])
      else Inl (InvalidInputError ''dates must be sorted unique!''))"
    by (rule node_loop_closed) (simp_all add: len)
  then have loop: "node_loop R dc dates vols 0 ?z ?z =
     (if \<forall>i. 0 < i \<and> i < length dates \<longrightarrow> ?T (i - 1) < ?T i
      then Inr (map ?T [0..<length dates], map ?V [0..<length dates])
      else Inl (InvalidInputError ''dates must be sorted unique!''))"
  proof -
    have q: "(\<forall>i. 0 \<le> i \<and> i < length vols \<and> 0 < i \<longrightarrow> ?T (i - 1) < ?T i) =
             (\<forall>i. 0 < i \<and> i < length dates \<longrightarrow> ?T (i - 1) < ?T i)"
      using len by auto
    assume a: "node_loop R dc dates vols 0 ?z ?z =
     (if \<forall>i. 0 \<le> i \<and> i < length vols \<and> 0 < i \<longrightarrow> ?T (i - 1) < ?T i
      then Inr (take 0 ?z @ map ?T [0..<length vols], take 0 ?z @ map ?V [0..<length vols])
      else Inl (InvalidInputError ''dates must be sorted unique!''))"
    show ?thesis unfolding a q by (simp only: take_0 append_Nil len)
  qed
  have m: "map ?T [0..<length dates] = map (yearFraction dc R) dates"
    by (rule nth_equalityI) simp_all
  have "new_BlackVarianceCurve ip R dc dates vols u =
      (if \<not> (dates ! 0 > R) then
        Inl (InvalidInputError ''cannot have dates[0]<=referenceDate'')
      else
        (case node_loop R dc dates vols 0 ?z ?z of
           Inl e \<Rightarrow> Inl e
         | Inr (ts, vs) \<Rightarrow>
             Inr \<lparr> referenceDate = R, dayCounter = dc, maxDate = last dates,
                   underlying = u, times_m = ts, variances = vs,
                   varianceSurface = ip ts vs \<rparr>))"
    unfolding new_BlackVarianceCurve_def using ne len by simp
  also have "\<dots> = (if \<not> (dates ! 0 > R) then
        Inl (InvalidInputError ''cannot have dates[0]<=referenceDate'')
      else if \<forall>i. 0 < i \<and> i < length dates \<longrightarrow> ?T (i - 1) < ?T i
      then Inr \<lparr> referenceDate = R, dayCounter = dc, maxDate = last dates,
                 underlying = u, times_m = map (yearFraction dc R) dates,
                 variances = map ?V [0..<length dates],
                 varianceSurface = ip (map (yearFraction dc R) dates) (map ?V [0..<length dates]) \<rparr>
      else Inl (InvalidInputError ''dates must be sorted unique!''))"
    unfolding loop m by auto
  finally show ?thesis using len by simp
qed

lemma strict_adjacent:
  fixes f :: "nat \<Rightarrow> real"
  assumes "\<forall>i. 0 < i \<and> i < n \<longrightarrow> f (i - 1) < f i" "i < j" "j < n"
  shows "f i < f j"
  using assms(2,3)
proof (induction j)
  case 0
  then show ?case by simp
next
  case (Suc j)
  have s: "f j < f (Suc j)" using assms(1) Suc.prems by (metis diff_Suc_1 zero_less_Suc)
  show ?case
  proof (cases "i = j")
    case True
    then show ?thesis using s by simp
  next
    case False
    then have "f i < f j" using Suc by simp
    then show ?thesis using s by simp
  qed
qed

lemma new_BlackVarianceCurve_success:
  fixes R :: "'d::ord"
  assumes "new_BlackVarianceCurve ip R dc dates vols u = Inr c"
  shows "dates \<noteq> []" "length dates = length vols" "R < dates ! 0"
    "times_m c = map (yearFraction dc R) dates"
    "variances c = map (\<lambda>i. yearFraction dc R (dates ! i) * (vols ! i) * (vols ! i)) [0..<length dates]"
    "varianceSurface c = ip (times_m c) (variances c)"
    "\<forall>i. 0 < i \<and> i < length dates \<longrightarrow>
            yearFraction dc R (dates ! (i - 1)) < yearFraction dc R (dates ! i)"
    "referenceDate c = R" "dayCounter c = dc" "maxDate c = last dates" "underlying c = u"
proof -
  show ne: "dates \<noteq> []" using assms by (auto simp: new_BlackVarianceCurve_def)
  note cl = new_BlackVarianceCurve_closed[OF ne, of ip R dc vols u]
  show len: "length dates = length vols" using assms cl by (auto split: if_splits)
  show gt: "R < dates ! 0" using assms cl by (auto split: if_splits)
  show inc: "\<forall>i. 0 < i \<and> i < length dates \<longrightarrow>
            yearFraction dc R (dates ! (i - 1)) < yearFraction dc R (dates ! i)"
    using assms len gt by (subst (asm) cl) (simp split: if_splits)
  have c: "c = \<lparr> referenceDate = R, dayCounter = dc, maxDate = last dates,
                 underlying = u, times_m = map (yearFraction dc R) dates,
                 variances = map (\<lambda>i. yearFraction dc R (dates ! i) * (vols ! i) * (vols ! i))
                               [0..<length dates],
                 varianceSurface = ip (map (yearFraction dc R) dates)
                   (map (\<lambda>i. yearFraction dc R (dates ! i) * (vols ! i) * (vols ! i))
                               [0..<length dates]) \<rparr>"
    using assms len gt inc by (subst (asm) cl) (simp split: if_splits)
  show "times_m c = map (yearFraction dc R) dates" by (simp add: c)
  show "variances c = map (\<lambda>i. yearFraction dc R (dates ! i) * (vols ! i) * (vols ! i)) [0..<length dates]"
    by (simp add: c)
  show "varianceSurface c = ip (times_m c) (variances c)" by (simp add: c)
  show "referenceDate c = R" "dayCounter c = dc" "maxDate c = last dates" "underlying c = u"
    by (simp_all add: c)
qed

lemma new_BlackVarianceCurve_times:
  fixes R :: "'d::ord"
  assumes ok: "new_BlackVarianceCurve ip R dc dates vols u = Inr c"
  shows "times_m c \<noteq> []" "times_m c ! 0 \<le> last (times_m c)"
    "i < j \<Longrightarrow> j < length (times_m c) \<Longrightarrow> times_m c ! i < times_m c ! j"
proof -
  note s = new_BlackVarianceCurve_success[OF ok]
  show ne: "times_m c \<noteq> []" using s(1,4) by simp
  have str: "times_m c ! i < times_m c ! j" if "i < j" "j < length (times_m c)" for i j
  proof -
    have "yearFraction dc R (dates ! i) < yearFraction dc R (dates ! j)"
      using strict_adjacent[where f = "\<lambda>i. yearFraction dc R (dates ! i)" and n = "length dates", OF s(7) that(1)]
        that(2) s(4) by simp
    then show ?thesis using that s(4) by simp
  qed
  then show "i < j \<Longrightarrow> j < length (times_m c) \<Longrightarrow> times_m c ! i < times_m c ! j" .
  show "times_m c ! 0 \<le> last (times_m c)"
  proof (cases "length (times_m c) = 1")
    case True
    then show ?thesis using ne by (simp add: last_conv_nth)
  next
    case False
    then have "0 < length (times_m c) - 1" "length (times_m c) - 1 < length (times_m c)"
      using ne by (simp_all add: Suc_lessI)
    from str[OF this] show ?thesis using ne by (simp add: last_conv_nth)
  qed
qed

lemma new_BlackVarianceCurve_last_positive:
  fixes R :: "'d::ord"
  assumes ok: "new_BlackVarianceCurve ip R dc dates vols u = Inr c"
    and first: "0 < times_m c ! 0"
  shows "0 < last (times_m c)"
  using first new_BlackVarianceCurve_times(2)[OF ok] by simp

lemma new_BlackVarianceCurve_positive:
  fixes R :: "'d::ord"
  assumes ok: "new_BlackVarianceCurve ip R dc dates vols u = Inr c"
    and pos: "\<forall>d. R < d \<longrightarrow> 0 < yearFraction dc R d"
  shows "0 < times_m c ! 0" "0 < last (times_m c)"
proof -
  note s = new_BlackVarianceCurve_success[OF ok]
  show "0 < times_m c ! 0" using s(1,3,4) pos by (simp add: nth_map)
  then show "0 < last (times_m c)" using new_BlackVarianceCurve_times(2)[OF ok] by simp
qed

subsection \<open>The example instance\<close>

lemma example_constructs:
  "new_BlackVarianceCurve flat20 0 actual365 [30, 90, 180] [1 / 5, 1 / 5, 1 / 5] [] = Inr example_curve"
  by (simp add: new_BlackVarianceCurve_def node_loop.simps actual365_def example_curve_def Let_def)

lemma actual365_positive: "\<forall>d. 0 < d \<longrightarrow> 0 < yearFraction actual365 0 d"
  by (simp add: actual365_def)

lemma example_first_positive: "0 < times_m example_curve ! 0"
  by (simp add: example_curve_def)

lemma whole_years_constructs:
  "new_BlackVarianceCurve flat20 0 whole_years [30, 365] [1 / 5, 1 / 5] [] = Inr whole_years_curve"
  by (simp add: new_BlackVarianceCurve_def node_loop.simps whole_years_def whole_years_curve_def Let_def)

lemma zero_constructs:
  "new_BlackVarianceCurve flat20 0 zero_counter [1] [1 / 5] [] = Inr zero_curve"
  by (simp add: new_BlackVarianceCurve_def node_loop.simps zero_counter_def zero_curve_def Let_def)

subsection \<open>Claims\<close>

text \<open>
  C1. For every curve that the constructor returned: the query fails with \<open>DomainError\<close>
  when \<open>t < 0\<close> (the first check, whatever the node times are); for \<open>t\<close> not negative and
  beyond the last node time it fails with \<open>ExtrapolationError\<close> when \<open>extrapolate\<close> is false,
  and when \<open>extrapolate\<close> is true it returns the quotient of the interpolant's value at the
  last node time, times \<open>t\<close>, by the last node time (a finite number when the last node time
  is positive). The query fails in these cases only.
\<close>

theorem C1_query_failures:
  fixes R :: "'d::ord"
  assumes ok: "new_BlackVarianceCurve ip R dc dates vols u = Inr c"
  shows "(t < 0 \<longrightarrow> blackVarianceImpl c t k e = Inl DomainError)
       \<and> (0 \<le> t \<and> last (times_m c) < t \<and> \<not> e \<longrightarrow>
            blackVarianceImpl c t k e = Inl ExtrapolationError)
       \<and> (0 \<le> t \<and> last (times_m c) < t \<and> e \<longrightarrow>
            blackVarianceImpl c t k e =
              Inr (fdiv (varianceSurface c (last (times_m c)) e * t) (last (times_m c))))
       \<and> (0 < last (times_m c) \<and> last (times_m c) < t \<and> e \<longrightarrow>
            blackVarianceImpl c t k e =
              Inr (Finite (varianceSurface c (last (times_m c)) e * t / last (times_m c))))
       \<and> ((\<exists>err. blackVarianceImpl c t k e = Inl err) \<longleftrightarrow>
            t < 0 \<or> (last (times_m c) < t \<and> \<not> e))"
proof -
  note ne = new_BlackVarianceCurve_times(1)[OF ok]
  note le = new_BlackVarianceCurve_times(2)[OF ok]
  have a: "t < 0 \<longrightarrow> blackVarianceImpl c t k e = Inl DomainError"
    by (simp add: blackVarianceImpl_def)
  have b: "0 \<le> t \<and> last (times_m c) < t \<and> \<not> e \<longrightarrow>
            blackVarianceImpl c t k e = Inl ExtrapolationError"
    using ne le by (simp add: blackVarianceImpl_def)
  have c: "0 \<le> t \<and> last (times_m c) < t \<and> e \<longrightarrow>
            blackVarianceImpl c t k e =
              Inr (fdiv (varianceSurface c (last (times_m c)) e * t) (last (times_m c)))"
    using ne le by (simp add: blackVarianceImpl_def)
  have c': "0 < last (times_m c) \<and> last (times_m c) < t \<and> e \<longrightarrow>
            blackVarianceImpl c t k e =
              Inr (Finite (varianceSurface c (last (times_m c)) e * t / last (times_m c)))"
    using ne le by (simp add: blackVarianceImpl_def fdiv_def)
  have d: "(\<exists>err. blackVarianceImpl c t k e = Inl err) \<longleftrightarrow>
            t < 0 \<or> (last (times_m c) < t \<and> \<not> e)"
    using ne le by (auto simp add: blackVarianceImpl_def)
  from a b c c' d show ?thesis by blast
qed

text \<open>C1 at the example curve, and at the curve whose only node time is zero.\<close>

theorem C1_query_failures_witness:
  "new_BlackVarianceCurve flat20 0 actual365 [30, 90, 180] [1 / 5, 1 / 5, 1 / 5] [] = Inr example_curve
   \<and> blackVarianceImpl example_curve (- 1) 0 False = Inl DomainError
   \<and> blackVarianceImpl example_curve 1 0 False = Inl ExtrapolationError
   \<and> blackVarianceImpl example_curve 1 0 True = Inr (Finite (1 / 25))
   \<and> blackVarianceImpl example_curve (1 / 5) 0 False = Inr (Finite (1 / 125))
   \<and> new_BlackVarianceCurve flat20 0 zero_counter [1] [1 / 5] [] = Inr zero_curve
   \<and> blackVarianceImpl zero_curve 1 0 False = Inl ExtrapolationError
   \<and> blackVarianceImpl zero_curve 1 0 True
        = Inr (fdiv (varianceSurface zero_curve (last (times_m zero_curve)) True * 1)
                    (last (times_m zero_curve)))"
  using C1_query_failures[OF example_constructs, of "- 1" 0 False]
    C1_query_failures[OF example_constructs, of 1 0 False]
    C1_query_failures[OF example_constructs, of 1 0 True]
    C1_query_failures[OF zero_constructs, of 1 0 True]
    C1_query_failures[OF zero_constructs, of 1 0 False]
    example_constructs zero_constructs
  by (simp add: example_curve_def zero_curve_def flat20_def blackVarianceImpl_def)

text \<open>
  C2, as stated, fails for an empty date vector. With no date and one volatility the two
  counts differ, yet no \<open>InvalidInputError\<close> is raised: the initialiser list has read
  \<^verbatim>\<open>dates.back()\<close> before the size check is reached.
\<close>

theorem C2_empty_dates_counterexample:
  "length ([] :: int list) \<noteq> length [1 / 5 :: real]
   \<and> new_BlackVarianceCurve flat20 (0::int) actual365 [] [1 / 5] [] = Inl UndefinedBehaviour
   \<and> new_BlackVarianceCurve flat20 (0::int) actual365 [] [1 / 5] []
       \<noteq> Inl (InvalidInputError ''mismatch between date vector and black vol vector'')"
  by (simp add: new_BlackVarianceCurve_def)

text \<open>
  C2, amended. For a non-empty date vector, construction fails with \<open>InvalidInputError\<close>
  exactly when the date count differs from the volatility count, or the first date is not
  strictly after the reference date, or the time computed for some date is not strictly
  greater than the time of the date before it. In every other case it returns a curve;
  a failure returns the error alone, so no partly built curve is to be seen.
\<close>

theorem C2_construction_failures:
  fixes R :: "'d::ord"
  assumes ne: "dates \<noteq> []"
  shows "((\<exists>m. new_BlackVarianceCurve ip R dc dates vols u = Inl (InvalidInputError m)) \<longleftrightarrow>
            length dates \<noteq> length vols \<or> \<not> R < dates ! 0
          \<or> (\<exists>j. 0 < j \<and> j < length dates
                \<and> \<not> yearFraction dc R (dates ! (j - 1)) < yearFraction dc R (dates ! j)))
       \<and> ((\<exists>c. new_BlackVarianceCurve ip R dc dates vols u = Inr c) \<longleftrightarrow>
            \<not> (length dates \<noteq> length vols \<or> \<not> R < dates ! 0
          \<or> (\<exists>j. 0 < j \<and> j < length dates
                \<and> \<not> yearFraction dc R (dates ! (j - 1)) < yearFraction dc R (dates ! j))))"
  unfolding new_BlackVarianceCurve_closed[OF ne] by auto

text \<open>C2 at a repeated date, which fails, and at the example, which succeeds.\<close>

theorem C2_construction_failures_witness:
  "[30, 30] \<noteq> ([] :: int list)
   \<and> (0::nat) < 1 \<and> (1::nat) < length [30, 30 :: int]
   \<and> \<not> yearFraction actual365 0 ([30, 30] ! (1 - 1)) < yearFraction actual365 0 ([30, 30] ! 1)
   \<and> new_BlackVarianceCurve flat20 0 actual365 [30, 30] [1 / 5, 1 / 5] []
        = Inl (InvalidInputError ''dates must be sorted unique!'')
   \<and> new_BlackVarianceCurve flat20 0 actual365 [30, 90, 180] [1 / 5, 1 / 5, 1 / 5] [] = Inr example_curve"
proof -
  have ne: "[30, 30] \<noteq> ([] :: int list)" by simp
  show ?thesis
    using C2_construction_failures[OF ne, of flat20 0 actual365 "[1 / 5, 1 / 5]" "[]"] example_constructs
    by (simp add: new_BlackVarianceCurve_def node_loop.simps actual365_def Let_def)
qed

text \<open>
  C3, as stated, fails where the first node time is zero. The constructor accepts the date
  \<open>1\<close> after reference date \<open>0\<close> with the day counter that is zero throughout; the only node
  time is \<open>0\<close>, and the query at \<open>t = 0\<close> divides zero by zero: the variance there is not \<open>0\<close>.
\<close>

theorem C3_zero_first_time_counterexample:
  "new_BlackVarianceCurve flat20 0 zero_counter [1] [1 / 5] [] = Inr zero_curve
   \<and> (0::real) \<le> times_m zero_curve ! 0
   \<and> blackVarianceImpl zero_curve 0 0 False = Inr NotFinite
   \<and> blackVarianceImpl zero_curve 0 0 False \<noteq> Inr (Finite 0)"
  using zero_constructs
  by (simp add: zero_curve_def blackVarianceImpl_def fdiv_def)

text \<open>
  C3, amended. For every curve that the constructor returned and every \<open>t\<close> from \<open>0\<close> to the
  first node time, the query returns the quotient of the interpolant's value at the first
  node time, times \<open>t\<close>, by the first node time. When the first node time is strictly positive
  this is a finite number, and in particular the variance at \<open>t = 0\<close>, without extrapolation,
  is \<open>0\<close>.
\<close>

theorem C3_region_A:
  fixes R :: "'d::ord"
  assumes ok: "new_BlackVarianceCurve ip R dc dates vols u = Inr c"
  shows "(\<forall>t. 0 \<le> t \<and> t \<le> times_m c ! 0 \<longrightarrow>
            blackVarianceImpl c t k e =
              Inr (fdiv (varianceSurface c (times_m c ! 0) e * t) (times_m c ! 0)))
       \<and> (0 < times_m c ! 0 \<longrightarrow>
            (\<forall>t. 0 \<le> t \<and> t \<le> times_m c ! 0 \<longrightarrow>
               blackVarianceImpl c t k e =
                 Inr (Finite (varianceSurface c (times_m c ! 0) e * t / times_m c ! 0)))
          \<and> blackVarianceImpl c 0 k False = Inr (Finite 0))"
  using new_BlackVarianceCurve_times(1)[OF ok]
  by (simp add: blackVarianceImpl_def fdiv_def)

text \<open>C3 at the example curve.\<close>

theorem C3_region_A_witness:
  "new_BlackVarianceCurve flat20 0 actual365 [30, 90, 180] [1 / 5, 1 / 5, 1 / 5] [] = Inr example_curve
   \<and> 0 < times_m example_curve ! 0
   \<and> (0::real) \<le> 3 / 73 \<and> 3 / 73 \<le> times_m example_curve ! 0
   \<and> blackVarianceImpl example_curve (3 / 73) 0 False = Inr (Finite (3 / 1825))
   \<and> blackVarianceImpl example_curve 0 0 False = Inr (Finite 0)"
  using C3_region_A[OF example_constructs, of 0 False] example_constructs
  by (simp add: example_curve_def flat20_def fdiv_def)

text \<open>
  C4. After a successful construction from reference date \<open>R\<close>, dates \<open>d\<^sub>0 \<dots> d\<^sub>n\<^sub>-\<^sub>1\<close> and Black
  volatilities \<open>v\<^sub>0 \<dots> v\<^sub>n\<^sub>-\<^sub>1\<close>, the two stored arrays have one entry per date, the time at
  index \<open>j\<close> is the year fraction from \<open>R\<close> to \<open>d\<^sub>j\<close>, the variance at index \<open>j\<close> is that time
  multiplied by the square of \<open>v\<^sub>j\<close>, and the times increase strictly.
\<close>

theorem C4_nodes:
  fixes R :: "'d::ord"
  assumes ok: "new_BlackVarianceCurve ip R dc dates vols u = Inr c"
  shows "length (times_m c) = length dates \<and> length (variances c) = length vols
       \<and> (\<forall>j. j < length dates \<longrightarrow>
             times_m c ! j = yearFraction dc R (dates ! j)
           \<and> variances c ! j = times_m c ! j * (vols ! j)\<^sup>2)
       \<and> (\<forall>i j. i < j \<and> j < length dates \<longrightarrow> times_m c ! i < times_m c ! j)"
proof -
  note s = new_BlackVarianceCurve_success[OF ok]
  have l1: "length (times_m c) = length dates" using s(4) by simp
  have l2: "length (variances c) = length vols" using s(2,5) by simp
  have n: "times_m c ! j = yearFraction dc R (dates ! j)
           \<and> variances c ! j = times_m c ! j * (vols ! j)\<^sup>2" if "j < length dates" for j
    using that s(4,5) by (simp add: power2_eq_square)
  have m: "times_m c ! i < times_m c ! j" if "i < j \<and> j < length dates" for i j
    using new_BlackVarianceCurve_times(3)[OF ok, of i j] that l1 by simp
  from l1 l2 n m show ?thesis by blast
qed

text \<open>C4 at the example curve.\<close>

theorem C4_nodes_witness:
  "new_BlackVarianceCurve flat20 0 actual365 [30, 90, 180] [1 / 5, 1 / 5, 1 / 5] [] = Inr example_curve
   \<and> times_m example_curve ! 1 = yearFraction actual365 0 90
   \<and> times_m example_curve ! 1 = 18 / 73
   \<and> variances example_curve ! 1 = times_m example_curve ! 1 * (1 / 5)\<^sup>2
   \<and> times_m example_curve ! 0 < times_m example_curve ! 1
   \<and> times_m example_curve ! 1 < times_m example_curve ! 2"
  using C4_nodes[OF example_constructs] example_constructs
  by (simp add: example_curve_def actual365_def power2_eq_square)

text \<open>
  C5, as stated, fails where the first node time is zero. On the curve built with the day
  counter that is zero throughout, the first and last node time are \<open>0\<close>: there the formula
  of Region A and the formula of Region C divide zero by zero, and so does the query, while
  the interpolant's value is \<open>0\<close>.
\<close>

theorem C5_zero_first_time_counterexample:
  "new_BlackVarianceCurve flat20 0 zero_counter [1] [1 / 5] [] = Inr zero_curve
   \<and> times_m zero_curve ! 0 = 0 \<and> last (times_m zero_curve) = 0
   \<and> blackVarianceImpl zero_curve (times_m zero_curve ! 0) 0 True = Inr NotFinite
   \<and> fdiv (varianceSurface zero_curve (times_m zero_curve ! 0) True * times_m zero_curve ! 0)
           (times_m zero_curve ! 0) = NotFinite
   \<and> fdiv (varianceSurface zero_curve (last (times_m zero_curve)) True * last (times_m zero_curve))
           (last (times_m zero_curve)) = NotFinite
   \<and> varianceSurface zero_curve (times_m zero_curve ! 0) True = 0"
  using zero_constructs
  by (simp add: zero_curve_def blackVarianceImpl_def fdiv_def flat20_def)

text \<open>
  C5, amended. For a curve that the constructor returned and whose first node time is
  strictly positive, the query is continuous at both region boundaries (over the reals).
  On \<open>[0, times[0]]\<close> it returns the scaling formula of Region A, on \<open>(times[0], times.back()]\<close>
  the interpolant's value at \<open>t\<close> (Region B), and beyond \<open>times.back()\<close>, with extrapolation, the
  scaling formula of Region C. The formula of Region A at \<open>t = times[0]\<close> is the interpolant's
  value there, the expression of Region B at that point, and it is what the query returns at
  \<open>times[0]\<close>. The formula of Region C at \<open>t = times.back()\<close> is the interpolant's value there,
  and it is what the query returns at \<open>times.back()\<close>.
\<close>

theorem C5_boundaries:
  fixes R :: "'d::ord"
  assumes ok: "new_BlackVarianceCurve ip R dc dates vols u = Inr c"
    and first: "0 < times_m c ! 0"
  shows "(\<forall>t. 0 \<le> t \<and> t \<le> times_m c ! 0 \<longrightarrow>
            blackVarianceImpl c t k e =
              Inr (fdiv (varianceSurface c (times_m c ! 0) e * t) (times_m c ! 0)))
       \<and> (\<forall>t. times_m c ! 0 < t \<and> t \<le> last (times_m c) \<longrightarrow>
            blackVarianceImpl c t k e = Inr (Finite (varianceSurface c t e)))
       \<and> (\<forall>t. last (times_m c) < t \<longrightarrow>
            blackVarianceImpl c t k True =
              Inr (fdiv (varianceSurface c (last (times_m c)) True * t) (last (times_m c))))
       \<and> fdiv (varianceSurface c (times_m c ! 0) e * times_m c ! 0) (times_m c ! 0) =
            Finite (varianceSurface c (times_m c ! 0) e)
       \<and> blackVarianceImpl c (times_m c ! 0) k e = Inr (Finite (varianceSurface c (times_m c ! 0) e))
       \<and> fdiv (varianceSurface c (last (times_m c)) e * last (times_m c)) (last (times_m c)) =
            Finite (varianceSurface c (last (times_m c)) e)
       \<and> blackVarianceImpl c (last (times_m c)) k e =
            Inr (Finite (varianceSurface c (last (times_m c)) e))"
proof -
  note ne = new_BlackVarianceCurve_times(1)[OF ok]
  note le = new_BlackVarianceCurve_times(2)[OF ok]
  note p = first new_BlackVarianceCurve_last_positive[OF ok first]
  have a: "\<forall>t. 0 \<le> t \<and> t \<le> times_m c ! 0 \<longrightarrow>
            blackVarianceImpl c t k e =
              Inr (fdiv (varianceSurface c (times_m c ! 0) e * t) (times_m c ! 0))"
    using ne by (simp add: blackVarianceImpl_def)
  have b: "\<forall>t. times_m c ! 0 < t \<and> t \<le> last (times_m c) \<longrightarrow>
            blackVarianceImpl c t k e = Inr (Finite (varianceSurface c t e))"
    using ne p by (simp add: blackVarianceImpl_def)
  have d: "\<forall>t. last (times_m c) < t \<longrightarrow>
            blackVarianceImpl c t k True =
              Inr (fdiv (varianceSurface c (last (times_m c)) True * t) (last (times_m c)))"
    using ne le p by (simp add: blackVarianceImpl_def)
  have fa: "fdiv (varianceSurface c (times_m c ! 0) e * times_m c ! 0) (times_m c ! 0) =
            Finite (varianceSurface c (times_m c ! 0) e)"
    using p by (simp add: fdiv_def)
  have va: "blackVarianceImpl c (times_m c ! 0) k e = Inr (Finite (varianceSurface c (times_m c ! 0) e))"
    for e
    using ne p by (simp add: blackVarianceImpl_def fdiv_def)
  have fc: "fdiv (varianceSurface c (last (times_m c)) e * last (times_m c)) (last (times_m c)) =
            Finite (varianceSurface c (last (times_m c)) e)"
    using p by (simp add: fdiv_def)
  have vc: "blackVarianceImpl c (last (times_m c)) k e =
            Inr (Finite (varianceSurface c (last (times_m c)) e))"
  proof (cases "last (times_m c) \<le> times_m c ! 0")
    case True
    then have "last (times_m c) = times_m c ! 0" using le by simp
    then show ?thesis using va[of e] by simp
  next
    case False
    then show ?thesis using ne p by (simp add: blackVarianceImpl_def)
  qed
  from a b d fa va[of e] fc vc show ?thesis by blast
qed

text \<open>C5 at the example curve.\<close>

theorem C5_boundaries_witness:
  "new_BlackVarianceCurve flat20 0 actual365 [30, 90, 180] [1 / 5, 1 / 5, 1 / 5] [] = Inr example_curve
   \<and> 0 < times_m example_curve ! 0
   \<and> blackVarianceImpl example_curve (3 / 73) 0 True = Inr (Finite (3 / 1825))
   \<and> blackVarianceImpl example_curve (6 / 73) 0 True = Inr (Finite (6 / 1825))
   \<and> varianceSurface example_curve (6 / 73) True = 6 / 1825
   \<and> blackVarianceImpl example_curve (18 / 73) 0 True = Inr (Finite (18 / 1825))
   \<and> blackVarianceImpl example_curve (36 / 73) 0 True = Inr (Finite (36 / 1825))
   \<and> varianceSurface example_curve (36 / 73) True = 36 / 1825
   \<and> fdiv (varianceSurface example_curve (36 / 73) True * (36 / 73)) (36 / 73) = Finite (36 / 1825)
   \<and> blackVarianceImpl example_curve 1 0 True = Inr (Finite (1 / 25))"
  using C5_boundaries[OF example_constructs example_first_positive, of 0 True] example_constructs
  by (simp add: example_curve_def flat20_def fdiv_def blackVarianceImpl_def)

text \<open>
  C6, as stated, fails where the first node time is zero. On the curve built with the day
  counter that is zero throughout, the interpolant returns the stored variance at the only
  node time, yet the query at that node time divides zero by zero and does not return the
  stored variance.
\<close>

theorem C6_zero_first_time_counterexample:
  "new_BlackVarianceCurve flat20 0 zero_counter [1] [1 / 5] [] = Inr zero_curve
   \<and> length (times_m zero_curve) = 1
   \<and> varianceSurface zero_curve (times_m zero_curve ! 0) False = variances zero_curve ! 0
   \<and> blackVarianceImpl zero_curve (times_m zero_curve ! 0) 0 False = Inr NotFinite
   \<and> blackVarianceImpl zero_curve (times_m zero_curve ! 0) 0 False
        \<noteq> Inr (Finite (variances zero_curve ! 0))"
  using zero_constructs
  by (simp add: zero_curve_def blackVarianceImpl_def fdiv_def flat20_def)

text \<open>
  C6, amended. For a curve that the constructor returned and whose first node time is
  strictly positive: if the interpolant returns the stored variance at every node time, then
  the query at the \<open>i\<close>-th node time, without extrapolation, returns the \<open>i\<close>-th stored variance,
  for every index \<open>i\<close>.
\<close>

theorem C6_node_values:
  fixes R :: "'d::ord"
  assumes ok: "new_BlackVarianceCurve ip R dc dates vols u = Inr c"
    and first: "0 < times_m c ! 0"
    and repro: "\<forall>i. i < length (times_m c) \<longrightarrow>
                  varianceSurface c (times_m c ! i) False = variances c ! i"
  shows "\<forall>i. i < length (times_m c) \<longrightarrow>
            blackVarianceImpl c (times_m c ! i) k False = Inr (Finite (variances c ! i))"
proof (intro allI impI)
  fix i assume i: "i < length (times_m c)"
  note ne = new_BlackVarianceCurve_times(1)[OF ok]
  note p = first new_BlackVarianceCurve_last_positive[OF ok first]
  show "blackVarianceImpl c (times_m c ! i) k False = Inr (Finite (variances c ! i))"
  proof (cases "i = 0")
    case True
    then show ?thesis using ne p repro i by (simp add: blackVarianceImpl_def fdiv_def)
  next
    case False
    then have gt: "times_m c ! 0 < times_m c ! i"
      using new_BlackVarianceCurve_times(3)[OF ok, of 0 i] i by simp
    have "times_m c ! i \<le> last (times_m c)"
    proof (cases "i = length (times_m c) - 1")
      case True
      then show ?thesis using ne by (simp add: last_conv_nth)
    next
      case False
      then have "i < length (times_m c) - 1" using i by simp
      then have "times_m c ! i < times_m c ! (length (times_m c) - 1)"
        using new_BlackVarianceCurve_times(3)[OF ok, of i "length (times_m c) - 1"] ne by simp
      then show ?thesis using ne by (simp add: last_conv_nth)
    qed
    then show ?thesis using gt ne p repro i by (simp add: blackVarianceImpl_def)
  qed
qed

text \<open>C6 at the example curve.\<close>

theorem C6_node_values_witness:
  "new_BlackVarianceCurve flat20 0 actual365 [30, 90, 180] [1 / 5, 1 / 5, 1 / 5] [] = Inr example_curve
   \<and> 0 < times_m example_curve ! 0
   \<and> varianceSurface example_curve (times_m example_curve ! 0) False = variances example_curve ! 0
   \<and> varianceSurface example_curve (times_m example_curve ! 1) False = variances example_curve ! 1
   \<and> varianceSurface example_curve (times_m example_curve ! 2) False = variances example_curve ! 2
   \<and> blackVarianceImpl example_curve (times_m example_curve ! 0) 0 False = Inr (Finite (6 / 1825))
   \<and> blackVarianceImpl example_curve (times_m example_curve ! 1) 0 False = Inr (Finite (18 / 1825))
   \<and> blackVarianceImpl example_curve (times_m example_curve ! 2) 0 False = Inr (Finite (36 / 1825))"
proof -
  have r: "\<forall>i. i < length (times_m example_curve) \<longrightarrow>
      varianceSurface example_curve (times_m example_curve ! i) False = variances example_curve ! i"
    by (simp add: example_curve_def flat20_def less_Suc_eq)
  show ?thesis
    using C6_node_values[OF example_constructs example_first_positive r, of 0] example_constructs
    by (simp add: example_curve_def flat20_def less_Suc_eq)
qed

text \<open>
  C7, as stated, fails where the first node time is zero. With the day counter of whole
  years, the dates \<open>30\<close> and \<open>365\<close> after reference date \<open>0\<close> give the node times \<open>0\<close> and \<open>1\<close>. The
  volatilities are \<open>0.2\<close>, the node variances \<open>0\<close> and \<open>0.04\<close> do not decrease, and the interpolant
  is the straight line through both nodes, non-decreasing. The query at \<open>t1 = 0\<close> divides zero
  by zero, so the variance at \<open>t2 = 1\<close>, which is \<open>0.04\<close>, is not at least the variance at \<open>t1\<close>.
\<close>

theorem C7_zero_first_time_counterexample:
  "new_BlackVarianceCurve flat20 0 whole_years [30, 365] [1 / 5, 1 / 5] [] = Inr whole_years_curve
   \<and> \<not> (\<exists>v \<in> set [1 / 5, 1 / 5 :: real]. v < 0)
   \<and> varianceSurface whole_years_curve (times_m whole_years_curve ! 0) False = variances whole_years_curve ! 0
   \<and> varianceSurface whole_years_curve (times_m whole_years_curve ! 1) False = variances whole_years_curve ! 1
   \<and> variances whole_years_curve ! 0 \<le> variances whole_years_curve ! 1
   \<and> \<not> (\<exists>x y. times_m whole_years_curve ! 0 \<le> x \<and> x \<le> y \<and> y \<le> last (times_m whole_years_curve)
          \<and> varianceSurface whole_years_curve y False < varianceSurface whole_years_curve x False)
   \<and> (0::real) \<le> 0 \<and> (0::real) < 1 \<and> 1 \<le> last (times_m whole_years_curve)
   \<and> blackVarianceImpl whole_years_curve 0 0 False = Inr NotFinite
   \<and> blackVarianceImpl whole_years_curve 1 0 False = Inr (Finite (1 / 25))"
  using whole_years_constructs
  by (simp add: whole_years_curve_def blackVarianceImpl_def fdiv_def flat20_def)

text \<open>
  C7, amended. For a curve that the constructor returned and whose first node time is
  strictly positive: if all supplied volatilities are non-negative and the interpolant, which
  returns the first stored variance at \<open>times[0]\<close>, is non-decreasing on
  \<open>[times[0], times.back()]\<close>, then for all \<open>t1 < t2\<close> in \<open>[0, times.back()]\<close> the variance at \<open>t2\<close> is
  at least the variance at \<open>t1\<close>.
\<close>

theorem C7_monotone:
  fixes R :: "'d::ord"
  assumes ok: "new_BlackVarianceCurve ip R dc dates vols u = Inr c"
    and first: "0 < times_m c ! 0"
    and vols_nn: "\<forall>v \<in> set vols. 0 \<le> v"
    and repro: "varianceSurface c (times_m c ! 0) e = variances c ! 0"
    and mono: "\<forall>x y. times_m c ! 0 \<le> x \<and> x \<le> y \<and> y \<le> last (times_m c) \<longrightarrow>
                 varianceSurface c x e \<le> varianceSurface c y e"
    and t: "0 \<le> t1" "t1 < t2" "t2 \<le> last (times_m c)"
  shows "\<exists>v1 v2. blackVarianceImpl c t1 k e = Inr (Finite v1)
              \<and> blackVarianceImpl c t2 k e = Inr (Finite v2) \<and> v1 \<le> v2"
proof -
  note ne = new_BlackVarianceCurve_times(1)[OF ok]
  note le = new_BlackVarianceCurve_times(2)[OF ok]
  note p = first new_BlackVarianceCurve_last_positive[OF ok first]
  note s = new_BlackVarianceCurve_success[OF ok]
  let ?t0 = "times_m c ! 0"
  let ?f = "\<lambda>x. varianceSurface c x e"
  have "variances c ! 0 = ?t0 * (vols ! 0 * vols ! 0)"
    using s(1,4,5) by (simp add: nth_map)
  then have nn: "0 \<le> ?f ?t0" using repro first by simp
  define val where "val x = (if x \<le> ?t0 then ?f ?t0 * x / ?t0 else ?f x)" for x
  have ev: "blackVarianceImpl c x k e = Inr (Finite (val x))" if "0 \<le> x" "x \<le> last (times_m c)" for x
    using that ne p by (simp add: blackVarianceImpl_def fdiv_def val_def)
  have scale: "?f ?t0 * x / ?t0 \<le> ?f ?t0 * y / ?t0" if "x \<le> y" for x y
    using that nn p(1) by (simp add: divide_right_mono mult_left_mono)
  have top: "?f ?t0 * x / ?t0 \<le> ?f ?t0" if "x \<le> ?t0" for x
    using scale[OF that] p(1) by simp
  have "val t1 \<le> val t2"
  proof (cases "t2 \<le> ?t0")
    case True
    then show ?thesis using t scale[of t1 t2] by (simp add: val_def)
  next
    case hi: False
    show ?thesis
    proof (cases "t1 \<le> ?t0")
      case True
      have "?f ?t0 * t1 / ?t0 \<le> ?f ?t0" using top[OF True] .
      also have "\<dots> \<le> ?f t2" using mono hi t by simp
      finally show ?thesis using True hi by (simp add: val_def)
    next
      case False
      then show ?thesis using hi mono t by (simp add: val_def)
    qed
  qed
  moreover have "blackVarianceImpl c t1 k e = Inr (Finite (val t1))" using ev[of t1] t by simp
  moreover have "blackVarianceImpl c t2 k e = Inr (Finite (val t2))" using ev[of t2] t by simp
  ultimately show ?thesis by blast
qed

text \<open>C7 at the example curve.\<close>

theorem C7_monotone_witness:
  "new_BlackVarianceCurve flat20 0 actual365 [30, 90, 180] [1 / 5, 1 / 5, 1 / 5] [] = Inr example_curve
   \<and> 0 < times_m example_curve ! 0
   \<and> varianceSurface example_curve (times_m example_curve ! 0) False = variances example_curve ! 0
   \<and> (0::real) \<le> 3 / 73 \<and> (3 / 73 :: real) < 18 / 73 \<and> 18 / 73 \<le> last (times_m example_curve)
   \<and> blackVarianceImpl example_curve (3 / 73) 0 False = Inr (Finite (3 / 1825))
   \<and> blackVarianceImpl example_curve (18 / 73) 0 False = Inr (Finite (18 / 1825))
   \<and> (3 / 1825 :: real) \<le> 18 / 1825"
proof -
  have mono: "\<forall>x y. times_m example_curve ! 0 \<le> x \<and> x \<le> y \<and> y \<le> last (times_m example_curve) \<longrightarrow>
                 varianceSurface example_curve x False \<le> varianceSurface example_curve y False"
    by (simp add: example_curve_def flat20_def)
  have vols_nn: "\<forall>v \<in> set [1 / 5, 1 / 5, 1 / 5 :: real]. 0 \<le> v"
    by simp
  have repro: "varianceSurface example_curve (times_m example_curve ! 0) False = variances example_curve ! 0"
    by (simp add: example_curve_def flat20_def)
  have t: "(0::real) \<le> 3 / 73" "(3 / 73 :: real) < 18 / 73" "18 / 73 \<le> last (times_m example_curve)"
    by (simp_all add: example_curve_def)
  show ?thesis
    using C7_monotone[OF example_constructs example_first_positive vols_nn repro mono t, of 0] example_constructs
    by (simp add: example_curve_def flat20_def blackVarianceImpl_def fdiv_def)
qed

text \<open>
  C8. \<^verbatim>\<open>update()\<close> leaves every member of the curve as it was: reference date, day counter,
  maximum date, underlying, times, variances and the interpolant. Its one effect is the
  call of \<^verbatim>\<open>notifyObservers()\<close> on the observable part of the object.
\<close>

theorem C8_update_frame:
  "members (update notifyObservers obj) = members obj
   \<and> referenceDate (members (update notifyObservers obj)) = referenceDate (members obj)
   \<and> dayCounter (members (update notifyObservers obj)) = dayCounter (members obj)
   \<and> maxDate (members (update notifyObservers obj)) = maxDate (members obj)
   \<and> underlying (members (update notifyObservers obj)) = underlying (members obj)
   \<and> times_m (members (update notifyObservers obj)) = times_m (members obj)
   \<and> variances (members (update notifyObservers obj)) = variances (members obj)
   \<and> varianceSurface (members (update notifyObservers obj)) = varianceSurface (members obj)
   \<and> observable (update notifyObservers obj) = notifyObservers (observable obj)"
  by (simp add: update_def)

text \<open>
  C9. Construction presupposes a non-empty date vector. For an empty one the constructor
  reads \<^verbatim>\<open>dates.back()\<close> in its initialiser list, before the size check, so whatever the
  volatility vector is (of another size or not) the outcome is the undefined read, never the
  \<open>InvalidInputError\<close> of the size check.
\<close>

theorem C9_empty_dates:
  "new_BlackVarianceCurve ip R dc [] vols u = Inl UndefinedBehaviour
   \<and> (\<forall>m. new_BlackVarianceCurve ip R dc [] vols u \<noteq> Inl (InvalidInputError m))
   \<and> (\<forall>c. new_BlackVarianceCurve ip R dc [] vols u \<noteq> Inr c)"
  by (simp add: new_BlackVarianceCurve_def)

text \<open>
  C10. The divisions by \<open>times[0]\<close> and by \<open>times.back()\<close> are safe under the further
  assumption that the day counter gives a strictly positive time to every date after the
  reference date: then both divisors of a constructed curve are positive and no query
  returns a non-finite quotient. The constructor does not establish this by itself: it
  compares the first date with the reference date, never the first time with zero. With
  the day counter that is zero throughout, the date \<open>1\<close> after reference date \<open>0\<close> is accepted,
  the only node time is \<open>0\<close>, and the queries at \<open>0\<close> and (extrapolating) at \<open>1\<close> divide by zero.
\<close>

theorem C10_division_by_zero:
  fixes R :: "'d::ord"
  shows "(new_BlackVarianceCurve ip R dc dates vols u = Inr c
          \<and> (\<forall>d. R < d \<longrightarrow> 0 < yearFraction dc R d)
          \<longrightarrow> 0 < times_m c ! 0 \<and> 0 < last (times_m c)
              \<and> blackVarianceImpl c t k e \<noteq> Inr NotFinite)
       \<and> new_BlackVarianceCurve flat20 0 zero_counter [1] [1 / 5] [] = Inr zero_curve
       \<and> (0::int) < [1] ! 0
       \<and> times_m zero_curve = [0]
       \<and> blackVarianceImpl zero_curve 0 0 False = Inr NotFinite
       \<and> blackVarianceImpl zero_curve 1 0 True = Inr NotFinite"
proof -
  have a: "0 < times_m c ! 0 \<and> 0 < last (times_m c) \<and> blackVarianceImpl c t k e \<noteq> Inr NotFinite"
    if ok: "new_BlackVarianceCurve ip R dc dates vols u = Inr c"
      and pos: "\<forall>d. R < d \<longrightarrow> 0 < yearFraction dc R d"
  proof -
    note p = new_BlackVarianceCurve_positive[OF ok pos]
    have "blackVarianceImpl c t k e \<noteq> Inr NotFinite"
      using p by (simp add: blackVarianceImpl_def fdiv_def)
    then show ?thesis using p by simp
  qed
  have b: "blackVarianceImpl zero_curve 0 0 False = Inr NotFinite"
    "blackVarianceImpl zero_curve 1 0 True = Inr NotFinite"
    "times_m zero_curve = [0]"
    by (simp_all add: zero_curve_def blackVarianceImpl_def fdiv_def)
  from a b zero_constructs show ?thesis by simp
qed

text \<open>C10 at the example curve.\<close>

theorem C10_division_by_zero_witness:
  "new_BlackVarianceCurve flat20 0 actual365 [30, 90, 180] [1 / 5, 1 / 5, 1 / 5] [] = Inr example_curve
   \<and> 0 < times_m example_curve ! 0 \<and> 0 < last (times_m example_curve)
   \<and> blackVarianceImpl example_curve (3 / 73) 0 False \<noteq> Inr NotFinite
   \<and> blackVarianceImpl example_curve 1 0 True \<noteq> Inr NotFinite"
  using C10_division_by_zero[of flat20 0 actual365 "[30, 90, 180]" "[1 / 5, 1 / 5, 1 / 5]" "[]" example_curve "3 / 73" 0 False]
    C10_division_by_zero[of flat20 0 actual365 "[30, 90, 180]" "[1 / 5, 1 / 5, 1 / 5]" "[]" example_curve 1 0 True]
    example_constructs actual365_positive
  by simp

end
